theory Spec2Isabelle
  imports Complex_Main
begin

section \<open>The model-description layer of pyimfit (descriptions.py)\<close>

text \<open>
  The classes of \<^verbatim>\<open>descriptions.py\<close> are embedded as records, their methods as
  functions that take the object and return the object after the call. A method that
  mutates \<^verbatim>\<open>self\<close> returns a pair: what ended the call, if it was not a plain return,
  and the object as the call left it. A constructor returns either what ended it or the
  new object.

  Numbers are reals, and the non-finite floats are not values of the model. Comparison
  and assignment of floats are comparison and assignment of the reals they denote; the
  products of \<^verbatim>\<open>setTolerance\<close> and the sums of \<^verbatim>\<open>setLimitsRel\<close> are exact here where the
  source rounds, so the model gives the expression the source evaluates, not its rounded
  value.

  Attribute names lose their leading underscore and carry the class as a prefix
  (\<^verbatim>\<open>_limits\<close> of a parameter is \<open>p_limits\<close>).
\<close>

text \<open>
  What ends the account of a call. The exceptions the source raises carry their message;
  those the interpreter raises (a comparison of a float with a sequence, a subscript out
  of range, an attribute that does not exist or cannot be set) carry none. \<open>Rebound a\<close>
  is not an exception: the call returned, and its closing \<^verbatim>\<open>setattr\<close> bound the name \<open>a\<close>,
  a name the object or its class already uses or one that begins with two underscores,
  to the child. The record paired with it is the object as it stood when \<^verbatim>\<open>setattr\<close>
  ran; the attribute \<open>a\<close> then holds the child instead, so the records no longer
  describe the object, and a loop or a constructor that meets \<open>Rebound\<close> is followed no
  further.
\<close>

datatype stop =
    ValueError string
  | KeyError string
  | Exception string
  | TypeError
  | IndexError
  | AttributeError
  | Rebound string

text \<open>
  A \<^verbatim>\<open>for\<close> loop whose body calls a mutating method: the calls are made one after the
  other on the object as the last call left it, and the first exception ends the loop, as
  the first \<open>Rebound\<close> ends the account of it.
\<close>

fun for_each ::
  "('s \<Rightarrow> 'a \<Rightarrow> stop option \<times> 's) \<Rightarrow> 's \<Rightarrow> 'a list \<Rightarrow> stop option \<times> 's" where
  "for_each body self [] = (None, self)"
| "for_each body self (x # xs) =
     (case body self x of
        (Some e, self') \<Rightarrow> (Some e, self')
      | (None, self') \<Rightarrow> for_each body self' xs)"

subsection \<open>ParameterDescription\<close>

record ParameterDescription =
  p_name :: string
  p_value :: real
  p_limits :: "(real \<times> real) option"
  p_fixed :: bool

text \<open>
  The argument \<^verbatim>\<open>vmin\<close> of \<^verbatim>\<open>setValue\<close> is a float or a two-element list or tuple of
  floats; \<^verbatim>\<open>vmax\<close> is a float. Unpacking a float raises the \<^verbatim>\<open>TypeError\<close> the method turns
  into its \<^verbatim>\<open>ValueError\<close>; comparing the value with a pair, when \<^verbatim>\<open>vmax\<close> is given too,
  raises a \<^verbatim>\<open>TypeError\<close> the method does not catch.
\<close>

datatype limit_arg = Scalar real | Pair real real

definition setValue ::
  "ParameterDescription \<Rightarrow> real \<Rightarrow> limit_arg option \<Rightarrow> real option \<Rightarrow> bool
     \<Rightarrow> stop option \<times> ParameterDescription" where
  "setValue self v vmin vmax fixed =
     (case vmin of
        None \<Rightarrow> (None, self\<lparr>p_value := v, p_fixed := fixed\<rparr>)
      | Some a \<Rightarrow>
          (case (case vmax of
                   None \<Rightarrow>
                     (case a of
                        Pair lower_limit upper_limit \<Rightarrow> Inr (lower_limit, upper_limit)
                      | Scalar x \<Rightarrow>
                          Inl (ValueError
                            ''If vmax is None, vmin must be None or two-element iterable.''))
                 | Some u \<Rightarrow>
                     (case a of
                        Scalar l \<Rightarrow> Inr (l, u)
                      | Pair x y \<Rightarrow> Inl TypeError)) of
             Inl e \<Rightarrow> (Some e, self)
           | Inr (lower_limit, upper_limit) \<Rightarrow>
               (let (lower_limit, upper_limit) =
                      (if v < lower_limit then (v, upper_limit)
                       else if v > upper_limit then (lower_limit, v)
                       else (lower_limit, upper_limit))
                in if lower_limit \<ge> upper_limit
                   then (Some (ValueError ''Lower limit must be < upper limit.''), self)
                   else (None, self\<lparr>p_limits := Some (lower_limit, upper_limit),
                                     p_value := v, p_fixed := fixed\<rparr>))))"

text \<open>
  \<^verbatim>\<open>__init__\<close> stores the name, sets \<^verbatim>\<open>_limits\<close> to \<^verbatim>\<open>None\<close> and calls \<^verbatim>\<open>setValue\<close>,
  which is the first to assign \<^verbatim>\<open>_value\<close> and \<^verbatim>\<open>fixed\<close> and never reads them; the record
  handed to it holds the values it is about to assign.
\<close>

definition ParameterDescription_init ::
  "string \<Rightarrow> real \<Rightarrow> limit_arg option \<Rightarrow> real option \<Rightarrow> bool
     \<Rightarrow> stop + ParameterDescription" where
  "ParameterDescription_init name v vmin vmax fixed =
     (case setValue \<lparr>p_name = name, p_value = v, p_limits = None, p_fixed = fixed\<rparr>
             v vmin vmax fixed of
        (Some e, _) \<Rightarrow> Inl e
      | (None, self) \<Rightarrow> Inr self)"

definition setTolerance ::
  "ParameterDescription \<Rightarrow> real \<Rightarrow> stop option \<times> ParameterDescription" where
  "setTolerance self tol =
     (if tol > 1 \<or> tol < 0
      then (Some (ValueError ''Tolerance must be between 0.0 and 1.0.''), self)
      else (None, self\<lparr>p_limits :=
                         Some (p_value self * (1 - tol), p_value self * (1 + tol))\<rparr>))"

definition setLimits ::
  "ParameterDescription \<Rightarrow> real \<Rightarrow> real \<Rightarrow> stop option \<times> ParameterDescription" where
  "setLimits self v1 v2 =
     (if v1 \<ge> v2 then (Some (ValueError ''v2 must be larger than v1.''), self)
      else (let (v1, v2) =
                  (if v1 > p_value self then (p_value self, v2)
                   else if v2 < p_value self then (v1, p_value self)
                   else (v1, v2))
            in (None, self\<lparr>p_limits := Some (v1, v2)\<rparr>)))"

definition setLimitsRel ::
  "ParameterDescription \<Rightarrow> real \<Rightarrow> real \<Rightarrow> stop option \<times> ParameterDescription" where
  "setLimitsRel self i1 i2 =
     (if i1 < 0 \<or> i2 < 0 then (Some (ValueError ''Limit intervals must be positive.''), self)
      else setLimits self (p_value self - i1) (p_value self + i2))"

definition ParameterDescription_eq :: "ParameterDescription \<Rightarrow> ParameterDescription \<Rightarrow> bool" where
  "ParameterDescription_eq self rhs =
     (if p_name self = p_name rhs \<and> p_value self = p_value rhs \<and> p_limits self = p_limits rhs
      then True else False)"

text \<open>
  \<^verbatim>\<open>copy(p)\<close> of a parameter builds a new object with the attributes of \<^verbatim>\<open>p\<close>, which are
  all immutable values; as a value the copy is the parameter itself.
\<close>

definition ParameterDescription_copy :: "ParameterDescription \<Rightarrow> ParameterDescription" where
  "ParameterDescription_copy p =
     \<lparr>p_name = p_name p, p_value = p_value p, p_limits = p_limits p, p_fixed = p_fixed p\<rparr>"

subsection \<open>Sequences of bound-setting calls on one parameter\<close>




text \<open>
  The bound invariant of the specification: limits, when present, are ordered and hold
  the value.
\<close>

definition limits_ok :: "ParameterDescription \<Rightarrow> bool" where
  "limits_ok p =
     (case p_limits p of
        None \<Rightarrow> True
      | Some (lower, upper) \<Rightarrow> lower < upper \<and> lower \<le> p_value p \<and> p_value p \<le> upper)"



subsection \<open>The container classes and the objects handed to them\<close>

record FunctionDescription =
  f_funcType :: string
  f_name :: string
  f_parameters :: "ParameterDescription list"

record FunctionSetDescription =
  fs_name :: string
  fs_x0 :: ParameterDescription
  fs_y0 :: ParameterDescription
  fs_functions :: "FunctionDescription list"

text \<open>
  \<^verbatim>\<open>SimpleModelDescription\<close> adds no attribute to \<^verbatim>\<open>ModelDescription\<close>; the record keeps
  the class of the object, which \<^verbatim>\<open>type(self)\<close> and the overridden \<^verbatim>\<open>addFunctionSet\<close>
  depend on.
\<close>

datatype model_class = ModelDescription_class | SimpleModelDescription_class

record ModelDescription =
  m_options :: "string \<rightharpoonup> real"
  m_functionSets :: "FunctionSetDescription list"
  m_class :: model_class

text \<open>
  The \<^verbatim>\<open>add\<close> methods and the constructor of \<^verbatim>\<open>SimpleModelDescription\<close> test the class
  of their argument with \<^verbatim>\<open>isinstance\<close>, so the argument is any object: \<^verbatim>\<open>None\<close>, an
  instance of one of the four classes, or an object of another type, given by the text
  \<^verbatim>\<open>type\<close> prints for it.
\<close>

datatype pyobj =
    PyNone
  | Param ParameterDescription
  | Func FunctionDescription
  | FuncSet FunctionSetDescription
  | Model ModelDescription
  | Other string

subsection \<open>\<^verbatim>\<open>setattr\<close>, the last statement of each \<^verbatim>\<open>add\<close> method\<close>

text \<open>
  \<^verbatim>\<open>setattr(self, child.name, child)\<close> looks the label up in the class first. A property
  without a setter, and \<^verbatim>\<open>__weakref__\<close>, refuse the assignment with \<^verbatim>\<open>AttributeError\<close>;
  \<^verbatim>\<open>__class__\<close> and \<^verbatim>\<open>__dict__\<close> refuse a value that is no class and no dictionary with
  \<^verbatim>\<open>TypeError\<close>. Every other label is bound in the object's own dictionary. When the label
  is the name of an attribute the object holds or of a method of its class, or begins
  with two underscores as the names the interpreter looks up do, the binding replaces
  that attribute or hides that method: \<open>Rebound\<close>. Any other label becomes a new
  attribute that no method of the module reads; the records do not hold it.

  The first list gives the properties of the owner's class, the second the attributes
  and methods it already has.
\<close>

definition setattr :: "string list \<Rightarrow> string list \<Rightarrow> string \<Rightarrow> stop option" where
  "setattr properties names label =
     (if label \<in> set properties \<or> label = ''__weakref__'' then Some AttributeError
      else if label = ''__class__'' \<or> label = ''__dict__'' then Some TypeError
      else if label \<in> set names \<or> take 2 label = ''__'' then Some (Rebound label)
      else None)"

definition FunctionDescription_properties :: "string list" where
  "FunctionDescription_properties = [''name'']"

definition FunctionDescription_names :: "string list" where
  "FunctionDescription_names =
     [''funcType'', ''_name'', ''_parameters'', ''addParameter'', ''parameterList'']"

definition FunctionSetDescription_properties :: "string list" where
  "FunctionSetDescription_properties = [''name'']"

definition FunctionSetDescription_names :: "string list" where
  "FunctionSetDescription_names =
     [''_name'', ''x0'', ''y0'', ''_functions'',
      ''addFunction'', ''_contains'', ''functionList'', ''parameterList'']"

text \<open>
  \<^verbatim>\<open>SimpleModelDescription\<close> adds the properties \<^verbatim>\<open>x0\<close> and \<^verbatim>\<open>y0\<close> and the method
  \<^verbatim>\<open>addFunction\<close> to what it inherits.
\<close>

fun ModelDescription_properties :: "model_class \<Rightarrow> string list" where
  "ModelDescription_properties ModelDescription_class = []"
| "ModelDescription_properties SimpleModelDescription_class = [''x0'', ''y0'']"

definition ModelDescription_names :: "model_class \<Rightarrow> string list" where
  "ModelDescription_names cls =
     [''options'', ''_functionSets'', ''load'', ''addFunctionSet'', ''_contains'',
      ''functionSetIndices'', ''functionList'', ''parameterList'', ''getRawParameters'',
      ''getParameterLimits'']
     @ (case cls of
          ModelDescription_class \<Rightarrow> []
        | SimpleModelDescription_class \<Rightarrow> [''addFunction''])"

subsection \<open>FunctionDescription\<close>

definition addParameter :: "FunctionDescription \<Rightarrow> pyobj \<Rightarrow> stop option \<times> FunctionDescription" where
  "addParameter self p =
     (case p of
        Param pd \<Rightarrow>
          (setattr FunctionDescription_properties FunctionDescription_names (p_name pd),
           self\<lparr>f_parameters := f_parameters self @ [pd]\<rparr>)
      | _ \<Rightarrow> (Some (ValueError ''p is not a ParameterDescription object.''), self))"

definition FunctionDescription_init ::
  "string \<Rightarrow> string option \<Rightarrow> pyobj list option \<Rightarrow> stop + FunctionDescription" where
  "FunctionDescription_init func_type name parameters =
     (let name = (case name of None \<Rightarrow> func_type | Some n \<Rightarrow> n);
          self = \<lparr>f_funcType = func_type, f_name = name, f_parameters = []\<rparr>
      in case parameters of
           None \<Rightarrow> Inr self
         | Some ps \<Rightarrow>
             (case for_each addParameter self ps of
                (Some e, _) \<Rightarrow> Inl e
              | (None, self') \<Rightarrow> Inr self'))"

definition FunctionDescription_parameterList :: "FunctionDescription \<Rightarrow> ParameterDescription list" where
  "FunctionDescription_parameterList self = map (\<lambda>p. p) (f_parameters self)"

text \<open>Python compares two lists by length and then element by element with \<^verbatim>\<open>__eq__\<close>.\<close>

definition FunctionDescription_eq :: "FunctionDescription \<Rightarrow> FunctionDescription \<Rightarrow> bool" where
  "FunctionDescription_eq self rhs =
     (if f_funcType self = f_funcType rhs \<and> f_name self = f_name rhs
         \<and> list_all2 ParameterDescription_eq (f_parameters self) (f_parameters rhs)
      then True else False)"

definition FunctionDescription_deepcopy :: "FunctionDescription \<Rightarrow> stop + FunctionDescription" where
  "FunctionDescription_deepcopy self =
     (case FunctionDescription_init (f_funcType self) (Some (f_name self)) None of
        Inl e \<Rightarrow> Inl e
      | Inr f \<Rightarrow> Inr (f\<lparr>f_parameters := map ParameterDescription_copy (f_parameters self)\<rparr>))"

text \<open>\<^verbatim>\<open>deepcopy\<close> of a list: a new list of the deep copies of its elements, in order.\<close>

fun deepcopy_list :: "('a \<Rightarrow> stop + 'a) \<Rightarrow> 'a list \<Rightarrow> stop + 'a list" where
  "deepcopy_list cp [] = Inr []"
| "deepcopy_list cp (x # xs) =
     (case cp x of
        Inl e \<Rightarrow> Inl e
      | Inr y \<Rightarrow> (case deepcopy_list cp xs of Inl e \<Rightarrow> Inl e | Inr ys \<Rightarrow> Inr (y # ys)))"

subsection \<open>FunctionSetDescription\<close>

fun contains_function :: "FunctionDescription list \<Rightarrow> string \<Rightarrow> bool" where
  "contains_function [] name = False"
| "contains_function (f # fs) name = (if f_name f = name then True else contains_function fs name)"

definition FunctionSetDescription_contains :: "FunctionSetDescription \<Rightarrow> string \<Rightarrow> bool" where
  "FunctionSetDescription_contains self name = contains_function (fs_functions self) name"

definition addFunction :: "FunctionSetDescription \<Rightarrow> pyobj \<Rightarrow> stop option \<times> FunctionSetDescription" where
  "addFunction self f =
     (case f of
        Func fd \<Rightarrow>
          (if FunctionSetDescription_contains self (f_name fd)
           then (Some (KeyError (''Function named '' @ f_name fd @ '' already exists.'')), self)
           else (setattr FunctionSetDescription_properties FunctionSetDescription_names
                   (f_name fd),
                 self\<lparr>fs_functions := fs_functions self @ [fd]\<rparr>))
      | _ \<Rightarrow> (Some (ValueError ''func is not a Function object.''), self))"

definition FunctionSetDescription_init ::
  "string \<Rightarrow> ParameterDescription option \<Rightarrow> ParameterDescription option \<Rightarrow> pyobj list option
     \<Rightarrow> stop + FunctionSetDescription" where
  "FunctionSetDescription_init name x0param y0param functions =
     (case (case x0param of
              None \<Rightarrow> ParameterDescription_init ''X0'' 0 None None False
            | Some p \<Rightarrow> Inr p) of
        Inl e \<Rightarrow> Inl e
      | Inr x0 \<Rightarrow>
          (case (case y0param of
                   None \<Rightarrow> ParameterDescription_init ''Y0'' 0 None None False
                 | Some p \<Rightarrow> Inr p) of
             Inl e \<Rightarrow> Inl e
           | Inr y0 \<Rightarrow>
               (let self = \<lparr>fs_name = name, fs_x0 = x0, fs_y0 = y0, fs_functions = []\<rparr>
                in case functions of
                     None \<Rightarrow> Inr self
                   | Some fl \<Rightarrow>
                       (case for_each addFunction self fl of
                          (Some e, _) \<Rightarrow> Inl e
                        | (None, self') \<Rightarrow> Inr self'))))"

definition FunctionSetDescription_functionList :: "FunctionSetDescription \<Rightarrow> string list" where
  "FunctionSetDescription_functionList self = map f_funcType (fs_functions self)"

text \<open>The loop of \<^verbatim>\<open>parameterList\<close>: each function's parameters extend the list built so far.\<close>

fun extend_with_functions ::
  "ParameterDescription list \<Rightarrow> FunctionDescription list \<Rightarrow> ParameterDescription list" where
  "extend_with_functions params [] = params"
| "extend_with_functions params (f # fs) =
     extend_with_functions (params @ FunctionDescription_parameterList f) fs"

definition FunctionSetDescription_parameterList ::
  "FunctionSetDescription \<Rightarrow> ParameterDescription list" where
  "FunctionSetDescription_parameterList self =
     extend_with_functions (([] @ [fs_x0 self]) @ [fs_y0 self]) (fs_functions self)"

definition FunctionSetDescription_eq :: "FunctionSetDescription \<Rightarrow> FunctionSetDescription \<Rightarrow> bool" where
  "FunctionSetDescription_eq self rhs =
     (if fs_name self = fs_name rhs \<and> ParameterDescription_eq (fs_x0 self) (fs_x0 rhs)
         \<and> ParameterDescription_eq (fs_y0 self) (fs_y0 rhs)
         \<and> list_all2 FunctionDescription_eq (fs_functions self) (fs_functions rhs)
      then True else False)"

definition FunctionSetDescription_deepcopy ::
  "FunctionSetDescription \<Rightarrow> stop + FunctionSetDescription" where
  "FunctionSetDescription_deepcopy self =
     (case FunctionSetDescription_init (fs_name self) None None None of
        Inl e \<Rightarrow> Inl e
      | Inr fs \<Rightarrow>
          (case deepcopy_list FunctionDescription_deepcopy (fs_functions self) of
             Inl e \<Rightarrow> Inl e
           | Inr fl \<Rightarrow>
               Inr (fs\<lparr>fs_x0 := ParameterDescription_copy (fs_x0 self),
                       fs_y0 := ParameterDescription_copy (fs_y0 self),
                       fs_functions := fl\<rparr>)))"

text \<open>
  \<^verbatim>\<open>copy(fs)\<close> of a function set, which defines no \<^verbatim>\<open>__copy__\<close>: a new object bound to
  the same attribute values. What the new object shares with the old one is the subject
  of the last section.
\<close>

definition FunctionSetDescription_copy :: "FunctionSetDescription \<Rightarrow> FunctionSetDescription" where
  "FunctionSetDescription_copy fs =
     \<lparr>fs_name = fs_name fs, fs_x0 = fs_x0 fs, fs_y0 = fs_y0 fs, fs_functions = fs_functions fs\<rparr>"

subsection \<open>ModelDescription and SimpleModelDescription\<close>

fun contains_functionSet :: "FunctionSetDescription list \<Rightarrow> string \<Rightarrow> bool" where
  "contains_functionSet [] name = False"
| "contains_functionSet (fs # rest) name =
     (if fs_name fs = name then True else contains_functionSet rest name)"

definition ModelDescription_contains :: "ModelDescription \<Rightarrow> string \<Rightarrow> bool" where
  "ModelDescription_contains self name = contains_functionSet (m_functionSets self) name"

definition ModelDescription_addFunctionSet ::
  "ModelDescription \<Rightarrow> pyobj \<Rightarrow> stop option \<times> ModelDescription" where
  "ModelDescription_addFunctionSet self fs =
     (case fs of
        FuncSet fsd \<Rightarrow>
          (if ModelDescription_contains self (fs_name fsd)
           then (Some (KeyError (''FunctionSet named '' @ fs_name fsd @ '' already exists.'')), self)
           else (setattr (ModelDescription_properties (m_class self))
                   (ModelDescription_names (m_class self)) (fs_name fsd),
                 self\<lparr>m_functionSets := m_functionSets self @ [fsd]\<rparr>))
      | _ \<Rightarrow> (Some (ValueError ''fs is not a FunctionSet object.''), self))"

definition SimpleModelDescription_addFunctionSet ::
  "ModelDescription \<Rightarrow> pyobj \<Rightarrow> stop option \<times> ModelDescription" where
  "SimpleModelDescription_addFunctionSet self fs =
     (if length (m_functionSets self) \<ge> 1
      then (Some (Exception ''Only one function set allowed.''), self)
      else ModelDescription_addFunctionSet self fs)"

text \<open>\<^verbatim>\<open>self.addFunctionSet(fs)\<close>: the method of the object's class.\<close>

definition addFunctionSet :: "ModelDescription \<Rightarrow> pyobj \<Rightarrow> stop option \<times> ModelDescription" where
  "addFunctionSet self fs =
     (case m_class self of
        ModelDescription_class \<Rightarrow> ModelDescription_addFunctionSet self fs
      | SimpleModelDescription_class \<Rightarrow> SimpleModelDescription_addFunctionSet self fs)"

text \<open>
  \<^verbatim>\<open>ModelDescription.__init__\<close>, which the subclass calls too: the first argument of the
  model is the class being instantiated.
\<close>

definition ModelDescription_init ::
  "model_class \<Rightarrow> pyobj list option \<Rightarrow> (string \<rightharpoonup> real) \<Rightarrow> stop + ModelDescription" where
  "ModelDescription_init cls function_sets options =
     (let self = \<lparr>m_options = Map.empty ++ options, m_functionSets = [], m_class = cls\<rparr>
      in case function_sets of
           None \<Rightarrow> Inr self
         | Some fsl \<Rightarrow>
             (case for_each addFunctionSet self fsl of
                (Some e, _) \<Rightarrow> Inl e
              | (None, self') \<Rightarrow> Inr self'))"

text \<open>The text \<^verbatim>\<open>type(inst)\<close> prints as.\<close>

definition class_repr :: "string \<Rightarrow> string" where
  "class_repr name = ''<class '' @ [CHR 0x27] @ name @ [CHR 0x27] @ ''>''"

fun type_repr :: "pyobj \<Rightarrow> string" where
  "type_repr PyNone = class_repr ''NoneType''"
| "type_repr (Param p) = class_repr ''pyimfit.descriptions.ParameterDescription''"
| "type_repr (Func f) = class_repr ''pyimfit.descriptions.FunctionDescription''"
| "type_repr (FuncSet fs) = class_repr ''pyimfit.descriptions.FunctionSetDescription''"
| "type_repr (Model m) =
     (case m_class m of
        ModelDescription_class \<Rightarrow> class_repr ''pyimfit.descriptions.ModelDescription''
      | SimpleModelDescription_class \<Rightarrow> class_repr ''pyimfit.descriptions.SimpleModelDescription'')"
| "type_repr (Other t) = t"

definition SimpleModelDescription_init :: "pyobj \<Rightarrow> stop + ModelDescription" where
  "SimpleModelDescription_init inst =
     (case ModelDescription_init SimpleModelDescription_class None Map.empty of
        Inl e \<Rightarrow> Inl e
      | Inr self \<Rightarrow>
          (case inst of
             Model m \<Rightarrow>
               (if length (m_functionSets m) \<noteq> 1
                then Inl (ValueError ''Original model must have only one function set.'')
                else (case addFunctionSet self
                             (FuncSet (FunctionSetDescription_copy (m_functionSets m ! 0))) of
                        (Some e, _) \<Rightarrow> Inl e
                      | (None, self') \<Rightarrow> Inr self'))
           | PyNone \<Rightarrow>
               (case FunctionSetDescription_init ''fs'' None None None of
                  Inl e \<Rightarrow> Inl e
                | Inr fs \<Rightarrow>
                    (case addFunctionSet self (FuncSet fs) of
                       (Some e, _) \<Rightarrow> Inl e
                     | (None, self') \<Rightarrow> Inr self'))
           | _ \<Rightarrow> Inl (ValueError (''Invalid type: '' @ type_repr inst))))"

text \<open>
  \<^verbatim>\<open>functionSetIndices\<close>: \<^verbatim>\<open>range(len(self._functionSets) - 1)\<close> is empty for a model
  with no function set, as \<open>[0..<0 - 1]\<close> is.
\<close>

definition functionSetIndices :: "ModelDescription \<Rightarrow> int list" where
  "functionSetIndices self =
     foldl (\<lambda>indices i.
              indices @ [int (length (FunctionSetDescription_functionList (m_functionSets self ! i)))])
       [0] [0..<length (m_functionSets self) - 1]"

fun extend_with_functionLists :: "string list \<Rightarrow> FunctionSetDescription list \<Rightarrow> string list" where
  "extend_with_functionLists functions [] = functions"
| "extend_with_functionLists functions (function_set # rest) =
     extend_with_functionLists (functions @ FunctionSetDescription_functionList function_set) rest"

definition ModelDescription_functionList :: "ModelDescription \<Rightarrow> string list" where
  "ModelDescription_functionList self = extend_with_functionLists [] (m_functionSets self)"

fun extend_with_functionSets ::
  "ParameterDescription list \<Rightarrow> FunctionSetDescription list \<Rightarrow> ParameterDescription list" where
  "extend_with_functionSets params [] = params"
| "extend_with_functionSets params (function_set # rest) =
     extend_with_functionSets (params @ FunctionSetDescription_parameterList function_set) rest"

definition ModelDescription_parameterList :: "ModelDescription \<Rightarrow> ParameterDescription list" where
  "ModelDescription_parameterList self = extend_with_functionSets [] (m_functionSets self)"

definition getRawParameters :: "ModelDescription \<Rightarrow> real list" where
  "getRawParameters self = map p_value (ModelDescription_parameterList self)"

definition getParameterLimits :: "ModelDescription \<Rightarrow> (real \<times> real) option list" where
  "getParameterLimits self = map p_limits (ModelDescription_parameterList self)"

definition ModelDescription_eq :: "ModelDescription \<Rightarrow> ModelDescription \<Rightarrow> bool" where
  "ModelDescription_eq self rhs =
     (if m_options self = m_options rhs
         \<and> list_all2 FunctionSetDescription_eq (m_functionSets self) (m_functionSets rhs)
      then True else False)"

text \<open>\<^verbatim>\<open>__deepcopy__\<close>: \<^verbatim>\<open>type(self)()\<close> calls the constructor of the object's class with no argument.\<close>

definition ModelDescription_deepcopy :: "ModelDescription \<Rightarrow> stop + ModelDescription" where
  "ModelDescription_deepcopy self =
     (case (case m_class self of
              ModelDescription_class \<Rightarrow> ModelDescription_init ModelDescription_class None Map.empty
            | SimpleModelDescription_class \<Rightarrow> SimpleModelDescription_init PyNone) of
        Inl e \<Rightarrow> Inl e
      | Inr model \<Rightarrow>
          (case deepcopy_list FunctionSetDescription_deepcopy (m_functionSets self) of
             Inl e \<Rightarrow> Inl e
           | Inr fsl \<Rightarrow> Inr (model\<lparr>m_functionSets := fsl\<rparr>)))"

text \<open>
  The starting offset of each function set in the flattened function list, as the
  specification words it: the number of functions in the sets before it.
\<close>

fun spec_startOffsets :: "int \<Rightarrow> FunctionSetDescription list \<Rightarrow> int list" where
  "spec_startOffsets start [] = []"
| "spec_startOffsets start (fs # rest) =
     start # spec_startOffsets (start + int (length (fs_functions fs))) rest"

subsection \<open>Objects by reference: what \<^verbatim>\<open>copy\<close> shares\<close>

text \<open>
  The records above are values; which objects two structures share is not visible in
  them. Here the objects live in a store, a list of cells addressed by position, and an
  attribute that holds an object is the address of its cell. A list is an object of its
  own. \<^verbatim>\<open>setValue\<close> on an address rewrites the cell in place, so every structure that
  holds the address sees the new value.
\<close>

datatype cell =
    ParamCell ParameterDescription
  | ListCell "nat list"
  | FuncCell string string nat
  | FuncSetCell string nat nat nat
  | ModelCell "string \<rightharpoonup> real" nat model_class

type_synonym store = "cell list"

definition cell_at :: "store \<Rightarrow> nat \<Rightarrow> cell option" where
  "cell_at h r = (if r < length h then Some (h ! r) else None)"

definition new :: "store \<Rightarrow> cell \<Rightarrow> nat \<times> store" where
  "new h c = (length h, h @ [c])"

definition ref_ParameterDescription_init ::
  "store \<Rightarrow> string \<Rightarrow> real \<Rightarrow> limit_arg option \<Rightarrow> real option \<Rightarrow> bool \<Rightarrow> stop + (nat \<times> store)" where
  "ref_ParameterDescription_init h name v vmin vmax fixed =
     (case ParameterDescription_init name v vmin vmax fixed of
        Inl e \<Rightarrow> Inl e
      | Inr p \<Rightarrow> Inr (new h (ParamCell p)))"

text \<open>\<^verbatim>\<open>FunctionSetDescription(name)\<close>, the other arguments left at \<^verbatim>\<open>None\<close>.\<close>

definition ref_FunctionSetDescription_init :: "store \<Rightarrow> string \<Rightarrow> stop + (nat \<times> store)" where
  "ref_FunctionSetDescription_init h name =
     (case ref_ParameterDescription_init h ''X0'' 0 None None False of
        Inl e \<Rightarrow> Inl e
      | Inr (x0, h1) \<Rightarrow>
          (case ref_ParameterDescription_init h1 ''Y0'' 0 None None False of
             Inl e \<Rightarrow> Inl e
           | Inr (y0, h2) \<Rightarrow>
               (let (functions, h3) = new h2 (ListCell [])
                in Inr (new h3 (FuncSetCell name x0 y0 functions)))))"

fun ref_contains_functionSet :: "store \<Rightarrow> nat list \<Rightarrow> string \<Rightarrow> stop + bool" where
  "ref_contains_functionSet h [] name = Inr False"
| "ref_contains_functionSet h (fs # rest) name =
     (case cell_at h fs of
        Some (FuncSetCell n x0 y0 functions) \<Rightarrow>
          (if n = name then Inr True else ref_contains_functionSet h rest name)
      | _ \<Rightarrow> Inl AttributeError)"

definition ref_ModelDescription_addFunctionSet :: "store \<Rightarrow> nat \<Rightarrow> nat \<Rightarrow> stop option \<times> store" where
  "ref_ModelDescription_addFunctionSet h self fs =
     (case cell_at h self of
        Some (ModelCell options functionSets cls) \<Rightarrow>
          (case cell_at h fs of
             Some (FuncSetCell name x0 y0 functions) \<Rightarrow>
               (case cell_at h functionSets of
                  Some (ListCell members) \<Rightarrow>
                    (case ref_contains_functionSet h members name of
                       Inl e \<Rightarrow> (Some e, h)
                     | Inr True \<Rightarrow>
                         (Some (KeyError (''FunctionSet named '' @ name @ '' already exists.'')), h)
                     | Inr False \<Rightarrow>
                         (setattr (ModelDescription_properties cls) (ModelDescription_names cls)
                            name,
                          h[functionSets := ListCell (members @ [fs])]))
                | _ \<Rightarrow> (Some AttributeError, h))
           | _ \<Rightarrow> (Some (ValueError ''fs is not a FunctionSet object.''), h))
      | _ \<Rightarrow> (Some AttributeError, h))"

definition ref_SimpleModelDescription_addFunctionSet ::
  "store \<Rightarrow> nat \<Rightarrow> nat \<Rightarrow> stop option \<times> store" where
  "ref_SimpleModelDescription_addFunctionSet h self fs =
     (case cell_at h self of
        Some (ModelCell options functionSets cls) \<Rightarrow>
          (case cell_at h functionSets of
             Some (ListCell members) \<Rightarrow>
               (if length members \<ge> 1 then (Some (Exception ''Only one function set allowed.''), h)
                else ref_ModelDescription_addFunctionSet h self fs)
           | _ \<Rightarrow> (Some AttributeError, h))
      | _ \<Rightarrow> (Some AttributeError, h))"

definition ref_addFunctionSet :: "nat \<Rightarrow> store \<Rightarrow> nat \<Rightarrow> stop option \<times> store" where
  "ref_addFunctionSet self h fs =
     (case cell_at h self of
        Some (ModelCell options functionSets ModelDescription_class) \<Rightarrow>
          ref_ModelDescription_addFunctionSet h self fs
      | Some (ModelCell options functionSets SimpleModelDescription_class) \<Rightarrow>
          ref_SimpleModelDescription_addFunctionSet h self fs
      | _ \<Rightarrow> (Some AttributeError, h))"

definition ref_ModelDescription_init ::
  "store \<Rightarrow> model_class \<Rightarrow> nat list option \<Rightarrow> (string \<rightharpoonup> real) \<Rightarrow> stop + (nat \<times> store)" where
  "ref_ModelDescription_init h cls function_sets options =
     (let (functionSets, h1) = new h (ListCell []);
          (self, h2) = new h1 (ModelCell (Map.empty ++ options) functionSets cls)
      in case function_sets of
           None \<Rightarrow> Inr (self, h2)
         | Some fsl \<Rightarrow>
             (case for_each (ref_addFunctionSet self) h2 fsl of
                (Some e, _) \<Rightarrow> Inl e
              | (None, h3) \<Rightarrow> Inr (self, h3)))"

text \<open>
  \<^verbatim>\<open>copy(x)\<close> of an instance of a class without \<^verbatim>\<open>__copy__\<close>: a new object whose
  attributes are bound to the very objects the attributes of \<^verbatim>\<open>x\<close> are bound to.
\<close>

definition ref_copy :: "store \<Rightarrow> nat \<Rightarrow> stop + (nat \<times> store)" where
  "ref_copy h r =
     (case cell_at h r of
        None \<Rightarrow> Inl AttributeError
      | Some c \<Rightarrow> Inr (new h c))"

fun cell_type_repr :: "cell \<Rightarrow> string" where
  "cell_type_repr (ParamCell p) = class_repr ''pyimfit.descriptions.ParameterDescription''"
| "cell_type_repr (ListCell l) = class_repr ''list''"
| "cell_type_repr (FuncCell t n ps) = class_repr ''pyimfit.descriptions.FunctionDescription''"
| "cell_type_repr (FuncSetCell n x0 y0 fl) = class_repr ''pyimfit.descriptions.FunctionSetDescription''"
| "cell_type_repr (ModelCell options fsl ModelDescription_class) =
     class_repr ''pyimfit.descriptions.ModelDescription''"
| "cell_type_repr (ModelCell options fsl SimpleModelDescription_class) =
     class_repr ''pyimfit.descriptions.SimpleModelDescription''"

definition ref_SimpleModelDescription_init :: "store \<Rightarrow> nat option \<Rightarrow> stop + (nat \<times> store)" where
  "ref_SimpleModelDescription_init h inst =
     (case ref_ModelDescription_init h SimpleModelDescription_class None Map.empty of
        Inl e \<Rightarrow> Inl e
      | Inr (self, h1) \<Rightarrow>
          (case inst of
             None \<Rightarrow>
               (case ref_FunctionSetDescription_init h1 ''fs'' of
                  Inl e \<Rightarrow> Inl e
                | Inr (fs, h2) \<Rightarrow>
                    (case ref_addFunctionSet self h2 fs of
                       (Some e, _) \<Rightarrow> Inl e
                     | (None, h3) \<Rightarrow> Inr (self, h3)))
           | Some i \<Rightarrow>
               (case cell_at h1 i of
                  Some (ModelCell options functionSets cls) \<Rightarrow>
                    (case cell_at h1 functionSets of
                       Some (ListCell members) \<Rightarrow>
                         (if length members \<noteq> 1
                          then Inl (ValueError ''Original model must have only one function set.'')
                          else (case ref_copy h1 (members ! 0) of
                                  Inl e \<Rightarrow> Inl e
                                | Inr (fs, h2) \<Rightarrow>
                                    (case ref_addFunctionSet self h2 fs of
                                       (Some e, _) \<Rightarrow> Inl e
                                     | (None, h3) \<Rightarrow> Inr (self, h3))))
                     | _ \<Rightarrow> Inl AttributeError)
                | Some c \<Rightarrow> Inl (ValueError (''Invalid type: '' @ cell_type_repr c))
                | None \<Rightarrow> Inl AttributeError)))"

text \<open>\<^verbatim>\<open>model._functionSets[i]\<close>, \<^verbatim>\<open>fs.x0\<close> and \<^verbatim>\<open>p.value\<close>.\<close>

definition ref_functionSet :: "store \<Rightarrow> nat \<Rightarrow> nat \<Rightarrow> stop + nat" where
  "ref_functionSet h model i =
     (case cell_at h model of
        Some (ModelCell options functionSets cls) \<Rightarrow>
          (case cell_at h functionSets of
             Some (ListCell members) \<Rightarrow>
               (if i < length members then Inr (members ! i) else Inl IndexError)
           | _ \<Rightarrow> Inl AttributeError)
      | _ \<Rightarrow> Inl AttributeError)"

definition ref_x0 :: "store \<Rightarrow> nat \<Rightarrow> stop + nat" where
  "ref_x0 h fs =
     (case cell_at h fs of
        Some (FuncSetCell name x0 y0 functions) \<Rightarrow> Inr x0
      | _ \<Rightarrow> Inl AttributeError)"

definition ref_value :: "store \<Rightarrow> nat \<Rightarrow> stop + real" where
  "ref_value h p =
     (case cell_at h p of
        Some (ParamCell pd) \<Rightarrow> Inr (p_value pd)
      | _ \<Rightarrow> Inl AttributeError)"

text \<open>The property \<^verbatim>\<open>x0\<close> of \<^verbatim>\<open>SimpleModelDescription\<close>: \<^verbatim>\<open>self._functionSets[0].x0\<close>.\<close>

definition ref_SimpleModelDescription_x0 :: "store \<Rightarrow> nat \<Rightarrow> stop + nat" where
  "ref_SimpleModelDescription_x0 h self =
     (case ref_functionSet h self 0 of
        Inl e \<Rightarrow> Inl e
      | Inr fs \<Rightarrow> ref_x0 h fs)"

definition ref_setValue ::
  "store \<Rightarrow> nat \<Rightarrow> real \<Rightarrow> limit_arg option \<Rightarrow> real option \<Rightarrow> bool \<Rightarrow> stop option \<times> store" where
  "ref_setValue h p v vmin vmax fixed =
     (case cell_at h p of
        Some (ParamCell pd) \<Rightarrow>
          (case setValue pd v vmin vmax fixed of
             (e, pd') \<Rightarrow> (e, h[p := ParamCell pd']))
      | _ \<Rightarrow> (Some AttributeError, h))"

text \<open>
  The run \<^verbatim>\<open>fs0 = FunctionSetDescription('fs0'); m = ModelDescription([fs0]);
  s = SimpleModelDescription(m); s.x0.setValue(v)\<close> on an empty store, and what it
  leaves: the function set of \<^verbatim>\<open>m\<close> and that of \<^verbatim>\<open>s\<close>, the \<^verbatim>\<open>x0\<close> of each, and the value
  of the \<^verbatim>\<open>x0\<close> of \<^verbatim>\<open>m\<close> before and after the call.
\<close>

record sharing =
  source_set :: nat
  clone_set :: nat
  source_x0 :: nat
  clone_x0 :: nat
  source_value_before :: real
  source_value_after :: real

definition copy_construct_then_setValue :: "real \<Rightarrow> stop + sharing" where
  "copy_construct_then_setValue v =
     (case ref_FunctionSetDescription_init [] ''fs0'' of
        Inl e \<Rightarrow> Inl e
      | Inr (fs0, h1) \<Rightarrow>
     (case ref_ModelDescription_init h1 ModelDescription_class (Some [fs0]) Map.empty of
        Inl e \<Rightarrow> Inl e
      | Inr (m, h2) \<Rightarrow>
     (case ref_SimpleModelDescription_init h2 (Some m) of
        Inl e \<Rightarrow> Inl e
      | Inr (s, h3) \<Rightarrow>
     (case ref_functionSet h3 m 0 of
        Inl e \<Rightarrow> Inl e
      | Inr m_fs \<Rightarrow>
     (case ref_functionSet h3 s 0 of
        Inl e \<Rightarrow> Inl e
      | Inr s_fs \<Rightarrow>
     (case ref_x0 h3 m_fs of
        Inl e \<Rightarrow> Inl e
      | Inr m_x0 \<Rightarrow>
     (case ref_SimpleModelDescription_x0 h3 s of
        Inl e \<Rightarrow> Inl e
      | Inr s_x0 \<Rightarrow>
     (case ref_value h3 m_x0 of
        Inl e \<Rightarrow> Inl e
      | Inr v_before \<Rightarrow>
     (case ref_setValue h3 s_x0 v None None False of
        (Some e, h4) \<Rightarrow> Inl e
      | (None, h4) \<Rightarrow>
     (case ref_value h4 m_x0 of
        Inl e \<Rightarrow> Inl e
      | Inr v_after \<Rightarrow>
          Inr \<lparr>source_set = m_fs, clone_set = s_fs, source_x0 = m_x0, clone_x0 = s_x0,
               source_value_before = v_before, source_value_after = v_after\<rparr>))))))))))"

subsection \<open>Example models\<close>

text \<open>
  A model of three function sets holding two, three and one function:
  \<^verbatim>\<open>FunctionDescription('Gaussian', label)\<close> for each label, in
  \<^verbatim>\<open>FunctionSetDescription(name, functions=[...])\<close>, in \<^verbatim>\<open>ModelDescription([...])\<close>.
\<close>

definition labelled_functions :: "string list \<Rightarrow> pyobj list" where
  "labelled_functions labels =
     map (\<lambda>label. Func \<lparr>f_funcType = ''Gaussian'', f_name = label, f_parameters = []\<rparr>) labels"

definition model_2_3_1 :: "stop + ModelDescription" where
  "model_2_3_1 =
     (case FunctionSetDescription_init ''fs0'' None None (Some (labelled_functions [''a'', ''b''])) of
        Inl e \<Rightarrow> Inl e
      | Inr fs0 \<Rightarrow>
     (case FunctionSetDescription_init ''fs1'' None None
             (Some (labelled_functions [''c'', ''d'', ''e''])) of
        Inl e \<Rightarrow> Inl e
      | Inr fs1 \<Rightarrow>
     (case FunctionSetDescription_init ''fs2'' None None (Some (labelled_functions [''f''])) of
        Inl e \<Rightarrow> Inl e
      | Inr fs2 \<Rightarrow>
          ModelDescription_init ModelDescription_class
            (Some [FuncSet fs0, FuncSet fs1, FuncSet fs2]) Map.empty)))"

text \<open>
  The scenario of the specification: one function set at (10, 20) without bounds, holding
  one Gaussian with \<^verbatim>\<open>PA = 0\<close> fixed, \<^verbatim>\<open>I_0 = 100\<close> within (50, 150) and \<^verbatim>\<open>sigma = 2\<close>.
\<close>

definition gaussian_model :: "stop + ModelDescription" where
  "gaussian_model =
     (case ParameterDescription_init ''X0'' 10 None None False of
        Inl e \<Rightarrow> Inl e
      | Inr x0 \<Rightarrow>
     (case ParameterDescription_init ''Y0'' 20 None None False of
        Inl e \<Rightarrow> Inl e
      | Inr y0 \<Rightarrow>
     (case ParameterDescription_init ''PA'' 0 None None True of
        Inl e \<Rightarrow> Inl e
      | Inr pa \<Rightarrow>
     (case ParameterDescription_init ''I_0'' 100 (Some (Scalar 50)) (Some 150) False of
        Inl e \<Rightarrow> Inl e
      | Inr i0 \<Rightarrow>
     (case ParameterDescription_init ''sigma'' 2 None None False of
        Inl e \<Rightarrow> Inl e
      | Inr sigma \<Rightarrow>
     (case FunctionDescription_init ''Gaussian'' None (Some [Param pa, Param i0, Param sigma]) of
        Inl e \<Rightarrow> Inl e
      | Inr gaussian \<Rightarrow>
     (case FunctionSetDescription_init ''fs'' (Some x0) (Some y0) (Some [Func gaussian]) of
        Inl e \<Rightarrow> Inl e
      | Inr fs \<Rightarrow>
          ModelDescription_init ModelDescription_class (Some [FuncSet fs]) Map.empty)))))))"

text \<open>What \<^verbatim>\<open>FunctionSetDescription(name)\<close> builds, and two models made of such sets.\<close>

definition bare_function_set :: "string \<Rightarrow> FunctionSetDescription" where
  "bare_function_set name =
     \<lparr>fs_name = name,
      fs_x0 = \<lparr>p_name = ''X0'', p_value = 0, p_limits = None, p_fixed = False\<rparr>,
      fs_y0 = \<lparr>p_name = ''Y0'', p_value = 0, p_limits = None, p_fixed = False\<rparr>,
      fs_functions = []\<rparr>"

definition two_set_model :: ModelDescription where
  "two_set_model =
     \<lparr>m_options = Map.empty,
      m_functionSets = [bare_function_set ''fs0'', bare_function_set ''fs1''],
      m_class = ModelDescription_class\<rparr>"

definition gain_model :: ModelDescription where
  "gain_model =
     \<lparr>m_options = [''GAIN'' \<mapsto> 4.5],
      m_functionSets = [bare_function_set ''fs0''],
      m_class = ModelDescription_class\<rparr>"


definition sigma_2 :: ParameterDescription where
  "sigma_2 = \<lparr>p_name = ''sigma'', p_value = 2, p_limits = None, p_fixed = False\<rparr>"

section \<open>Properties of ParameterDescription\<close>


text \<open>The constructor establishes the invariant.\<close>

lemma ParameterDescription_init_limits_ok:
  "ParameterDescription_init name v vmin vmax fixed = Inr p \<Longrightarrow> limits_ok p"
  by (cases vmin; cases vmax)
     (auto simp: ParameterDescription_init_def setValue_def limits_ok_def Let_def
           split: option.splits limit_arg.splits if_splits prod.splits sum.splits)







text \<open>
  Claim C3 at an input where the code departs from it: \<^verbatim>\<open>setValue(1, vmax=5)\<close> supplies
  the upper bound alone; the call raises nothing, sets the value and drops the bound.
\<close>

theorem setValue_lone_upper_bound_accepted:
  "setValue \<lparr>p_name = ''I_0'', p_value = 100, p_limits = None, p_fixed = False\<rparr>
     1 None (Some 5) False
   = (None, \<lparr>p_name = ''I_0'', p_value = 1, p_limits = None, p_fixed = False\<rparr>)"
  by (simp add: setValue_def)

text \<open>
  Claim C5, as amended. \<^verbatim>\<open>setTolerance(tol)\<close> raises \<^verbatim>\<open>ValueError\<close> and changes nothing
  when \<open>tol < 0\<close> or \<open>tol > 1\<close>; for every \<open>tol\<close> from 0 to 1, both ends included, it
  sets the limits to exactly \<open>(value * (1 - tol), value * (1 + tol))\<close> and changes
  nothing else.
\<close>

theorem setTolerance_domain:
  "(tol < 0 \<or> 1 < tol \<longrightarrow>
      setTolerance p tol = (Some (ValueError ''Tolerance must be between 0.0 and 1.0.''), p))
   \<and> (0 \<le> tol \<and> tol \<le> 1 \<longrightarrow>
      setTolerance p tol =
        (None, p\<lparr>p_limits := Some (p_value p * (1 - tol), p_value p * (1 + tol))\<rparr>))"
  by (auto simp: setTolerance_def)

theorem setTolerance_domain_witness:
  "((2::real) < 0 \<or> (1::real) < 2)
   \<and> setTolerance sigma_2 2 = (Some (ValueError ''Tolerance must be between 0.0 and 1.0.''), sigma_2)
   \<and> ((0::real) \<le> 1 / 2 \<and> (1::real) / 2 \<le> 1)
   \<and> setTolerance sigma_2 (1 / 2) = (None, sigma_2\<lparr>p_limits := Some (1, 3)\<rparr>)"
  using setTolerance_domain [of 2 sigma_2] setTolerance_domain [of "1 / 2" sigma_2]
  by (simp add: sigma_2_def)

text \<open>
  Claim C5 as the specification states it fails at the boundary: \<^verbatim>\<open>setTolerance(0)\<close> is
  accepted and sets both limits to the value.
\<close>

theorem setTolerance_zero_accepted:
  "setTolerance sigma_2 0 = (None, sigma_2\<lparr>p_limits := Some (2, 2)\<rparr>)"
  by (simp add: setTolerance_def sigma_2_def)

text \<open>
  Claim C9. Two parameters are equal exactly when their names, values and limits are
  equal; \<^verbatim>\<open>fixed\<close> takes no part, so a parameter equals itself with any other flag.
\<close>

theorem ParameterDescription_eq_fields:
  "ParameterDescription_eq p q
     = (p_name p = p_name q \<and> p_value p = p_value q \<and> p_limits p = p_limits q)
   \<and> ParameterDescription_eq (p\<lparr>p_fixed := b\<rparr>) p
   \<and> ParameterDescription_eq p (p\<lparr>p_fixed := b\<rparr>)"
  by (simp add: ParameterDescription_eq_def)

section \<open>Properties of the containers\<close>

lemmas setattr_defs =
  setattr_def FunctionDescription_properties_def FunctionDescription_names_def
  FunctionSetDescription_properties_def FunctionSetDescription_names_def
  ModelDescription_names_def

lemmas init_defs =
  ParameterDescription_init_def setValue_def FunctionDescription_init_def addParameter_def
  FunctionSetDescription_init_def addFunction_def FunctionSetDescription_contains_def
  ModelDescription_init_def addFunctionSet_def ModelDescription_addFunctionSet_def
  ModelDescription_contains_def setattr_defs


lemma bare_function_set_init:
  "FunctionSetDescription_init name None None None = Inr (bare_function_set name)"
  by (simp add: FunctionSetDescription_init_def ParameterDescription_init_def setValue_def
        bare_function_set_def)

lemma fs_name_bare_function_set: "fs_name (bare_function_set name) = name"
  by (simp add: bare_function_set_def)






lemma extend_with_functions_concat:
  "extend_with_functions params fl = params @ concat (map FunctionDescription_parameterList fl)"
  by (induction fl arbitrary: params) simp_all

lemma extend_with_functionSets_concat:
  "extend_with_functionSets params fsl =
     params @ concat (map FunctionSetDescription_parameterList fsl)"
  by (induction fsl arbitrary: params) simp_all

text \<open>
  Claim C4. The parameter list of a function set is \<open>[x0, y0]\<close> followed by the
  parameters of each function, functions in order and parameters in the order they were
  added; the parameter list of a model is the concatenation of those of its sets; and in
  the scenario of one set at (10, 20) holding one Gaussian with \<^verbatim>\<open>PA = 0\<close> fixed,
  \<^verbatim>\<open>I_0 = 100\<close> within (50, 150) and \<^verbatim>\<open>sigma = 2\<close>, the raw parameters are
  \<open>[10, 20, 0, 100, 2]\<close> and the limits \<open>[None, None, None, (50, 150), None]\<close>.
\<close>

theorem parameterList_order:
  "FunctionDescription_parameterList f = f_parameters f
   \<and> FunctionSetDescription_parameterList fs =
       [fs_x0 fs, fs_y0 fs] @ concat (map FunctionDescription_parameterList (fs_functions fs))
   \<and> ModelDescription_parameterList m =
       concat (map FunctionSetDescription_parameterList (m_functionSets m))
   \<and> (\<exists>g. gaussian_model = Inr g
        \<and> getRawParameters g = [10, 20, 0, 100, 2]
        \<and> getParameterLimits g = [None, None, None, Some (50, 150), None])"
proof -
  have a: "FunctionSetDescription_parameterList fs =
      [fs_x0 fs, fs_y0 fs] @ concat (map FunctionDescription_parameterList (fs_functions fs))"
    for fs
    by (simp add: FunctionSetDescription_parameterList_def extend_with_functions_concat)
  have b: "ModelDescription_parameterList m =
      concat (map FunctionSetDescription_parameterList (m_functionSets m))" for m
    by (simp add: ModelDescription_parameterList_def extend_with_functionSets_concat)
  have c: "\<exists>g. gaussian_model = Inr g
        \<and> getRawParameters g = [10, 20, 0, 100, 2]
        \<and> getParameterLimits g = [None, None, None, Some (50, 150), None]"
    by (simp add: gaussian_model_def init_defs getRawParameters_def getParameterLimits_def a b
          FunctionDescription_parameterList_def)
  have d: "FunctionDescription_parameterList f = f_parameters f"
    by (simp add: FunctionDescription_parameterList_def)
  from a b c d show ?thesis by blast
qed

lemma foldl_append_nth:
  "n \<le> length xs \<Longrightarrow>
   foldl (\<lambda>indices i. indices @ [g (xs ! i)]) acc [0..<n] = acc @ map g (take n xs)"
proof (induction n)
  case 0
  then show ?case by simp
next
  case (Suc n)
  then show ?case by (simp add: take_Suc_conv_app_nth)
qed

text \<open>
  What \<^verbatim>\<open>functionSetIndices\<close> computes: 0, then the number of functions of each set but
  the last.
\<close>

lemma functionSetIndices_counts:
  "functionSetIndices m =
     0 # map (\<lambda>fs. int (length (fs_functions fs))) (butlast (m_functionSets m))"
proof -
  have "length (m_functionSets m) - 1 \<le> length (m_functionSets m)" by simp
  from foldl_append_nth [OF this,
      of "\<lambda>fs. int (length (FunctionSetDescription_functionList fs))" "[0]"]
  show ?thesis
    by (simp add: functionSetIndices_def butlast_conv_take FunctionSetDescription_functionList_def)
qed

text \<open>
  Claim C2 at an input where the code departs from it: in the model whose sets hold two,
  three and one function, the sets start at functions 0, 2 and 5 of the flattened list,
  and \<^verbatim>\<open>functionSetIndices\<close> returns \<open>[0, 2, 3]\<close>.
\<close>

theorem functionSetIndices_2_3_1:
  "\<exists>m. model_2_3_1 = Inr m
     \<and> map (\<lambda>fs. length (fs_functions fs)) (m_functionSets m) = [2, 3, 1]
     \<and> functionSetIndices m = [0, 2, 3]
     \<and> spec_startOffsets 0 (m_functionSets m) = [0, 2, 5]"
  by (simp add: functionSetIndices_counts model_2_3_1_def labelled_functions_def init_defs)

lemma SimpleModelDescription_init_None:
  "SimpleModelDescription_init PyNone =
     Inr \<lparr>m_options = Map.empty, m_functionSets = [bare_function_set ''fs''],
          m_class = SimpleModelDescription_class\<rparr>"
  by (simp add: SimpleModelDescription_init_def ModelDescription_init_def addFunctionSet_def
        SimpleModelDescription_addFunctionSet_def ModelDescription_addFunctionSet_def
        ModelDescription_contains_def bare_function_set_init fs_name_bare_function_set
        setattr_defs)

text \<open>
  Claim C7. The constructor of \<^verbatim>\<open>SimpleModelDescription\<close> raises \<^verbatim>\<open>ValueError\<close> for a model
  that does not have exactly one function set, and builds no object; \<^verbatim>\<open>addFunctionSet\<close> on
  a \<^verbatim>\<open>SimpleModelDescription\<close> that holds a set raises \<^verbatim>\<open>Exception\<close> and leaves the model
  as it was.
\<close>

theorem SimpleModelDescription_single_set:
  "(length (m_functionSets m) \<noteq> 1 \<longrightarrow>
      SimpleModelDescription_init (Model m) =
        Inl (ValueError ''Original model must have only one function set.''))
   \<and> (m_class s = SimpleModelDescription_class \<and> length (m_functionSets s) \<ge> 1 \<longrightarrow>
      addFunctionSet s fs = (Some (Exception ''Only one function set allowed.''), s))"
  by (simp add: SimpleModelDescription_init_def ModelDescription_init_def addFunctionSet_def
        SimpleModelDescription_addFunctionSet_def)

text \<open>
  The theorem at work: a model of two sets is refused by the constructor, and the model
  \<^verbatim>\<open>SimpleModelDescription()\<close> builds refuses a second set.
\<close>

theorem SimpleModelDescription_single_set_witness:
  "length (m_functionSets two_set_model) \<noteq> 1
   \<and> SimpleModelDescription_init (Model two_set_model) =
       Inl (ValueError ''Original model must have only one function set.'')
   \<and> SimpleModelDescription_init PyNone =
       Inr \<lparr>m_options = Map.empty, m_functionSets = [bare_function_set ''fs''],
            m_class = SimpleModelDescription_class\<rparr>
   \<and> addFunctionSet
        \<lparr>m_options = Map.empty, m_functionSets = [bare_function_set ''fs''],
         m_class = SimpleModelDescription_class\<rparr>
        (FuncSet (bare_function_set ''fs1''))
      = (Some (Exception ''Only one function set allowed.''),
         \<lparr>m_options = Map.empty, m_functionSets = [bare_function_set ''fs''],
          m_class = SimpleModelDescription_class\<rparr>)"
  using
    SimpleModelDescription_single_set [of two_set_model
      "\<lparr>m_options = Map.empty, m_functionSets = [bare_function_set ''fs''],
        m_class = SimpleModelDescription_class\<rparr>"
      "FuncSet (bare_function_set ''fs1'')"]
    SimpleModelDescription_init_None
  by (simp add: two_set_model_def)

lemma ParameterDescription_copy_same: "ParameterDescription_copy p = p"
  by (simp add: ParameterDescription_copy_def)

lemma map_ParameterDescription_copy: "map ParameterDescription_copy ps = ps"
  by (induction ps) (simp_all add: ParameterDescription_copy_same)

lemma FunctionDescription_deepcopy_same: "FunctionDescription_deepcopy f = Inr f"
  by (simp add: FunctionDescription_deepcopy_def FunctionDescription_init_def
        map_ParameterDescription_copy)

lemma deepcopy_list_same: "(\<And>x. cp x = Inr x) \<Longrightarrow> deepcopy_list cp xs = Inr xs"
  by (induction xs) simp_all

lemma FunctionSetDescription_deepcopy_same: "FunctionSetDescription_deepcopy fs = Inr fs"
  by (simp add: FunctionSetDescription_deepcopy_def bare_function_set_init bare_function_set_def
        deepcopy_list_same [OF FunctionDescription_deepcopy_same] ParameterDescription_copy_same)

lemma ModelDescription_deepcopy_value:
  "ModelDescription_deepcopy m = Inr (m\<lparr>m_options := Map.empty\<rparr>)"
  by (cases "m_class m")
     (simp_all add: ModelDescription_deepcopy_def ModelDescription_init_def
        SimpleModelDescription_init_None deepcopy_list_same [OF FunctionSetDescription_deepcopy_same])

lemma ParameterDescription_eq_refl: "ParameterDescription_eq p p"
  by (simp add: ParameterDescription_eq_def)

lemma FunctionDescription_eq_refl: "FunctionDescription_eq f f"
  by (simp add: FunctionDescription_eq_def list.rel_refl ParameterDescription_eq_refl)

lemma FunctionSetDescription_eq_refl: "FunctionSetDescription_eq fs fs"
  by (simp add: FunctionSetDescription_eq_def list.rel_refl ParameterDescription_eq_refl
        FunctionDescription_eq_refl)

text \<open>
  Claim C10. The deep copy of a model exists, has no options, and has the function sets
  of the model, equal to them one by one under \<^verbatim>\<open>__eq__\<close>; when the model has an option,
  the copy and the model are not equal under \<^verbatim>\<open>__eq__\<close>, in either direction.
\<close>

theorem deepcopy_drops_options:
  "\<exists>c. ModelDescription_deepcopy m = Inr c
     \<and> m_options c = Map.empty
     \<and> m_functionSets c = m_functionSets m
     \<and> list_all2 FunctionSetDescription_eq (m_functionSets c) (m_functionSets m)
     \<and> (m_options m \<noteq> Map.empty \<longrightarrow> \<not> ModelDescription_eq c m \<and> \<not> ModelDescription_eq m c)"
proof -
  let ?c = "m\<lparr>m_options := Map.empty\<rparr>"
  have "list_all2 FunctionSetDescription_eq (m_functionSets ?c) (m_functionSets m)"
    by (simp add: list.rel_refl FunctionSetDescription_eq_refl)
  moreover have "\<not> ModelDescription_eq ?c m \<and> \<not> ModelDescription_eq m ?c"
    if "m_options m \<noteq> Map.empty"
    using that by (auto simp: ModelDescription_eq_def)
  ultimately show ?thesis
    using ModelDescription_deepcopy_value [of m] by auto
qed

text \<open>The theorem at work, on a model of one set with the option \<^verbatim>\<open>GAIN = 4.5\<close>.\<close>

theorem deepcopy_drops_options_witness:
  "m_options gain_model \<noteq> Map.empty
   \<and> (\<exists>c. ModelDescription_deepcopy gain_model = Inr c
          \<and> m_options c = Map.empty
          \<and> m_functionSets c = [bare_function_set ''fs0'']
          \<and> \<not> ModelDescription_eq c gain_model)"
proof -
  have h: "m_options gain_model \<noteq> Map.empty"
    by (simp add: gain_model_def)
  have s: "m_functionSets gain_model = [bare_function_set ''fs0'']"
    by (simp add: gain_model_def)
  from deepcopy_drops_options [of gain_model] h s show ?thesis by auto
qed

section \<open>Copy construction by reference\<close>

text \<open>
  Claim C6 at an input where the code departs from it. \<^verbatim>\<open>SimpleModelDescription(m)\<close>
  copies the function set of \<^verbatim>\<open>m\<close> with \<^verbatim>\<open>copy\<close>: the new model holds a new function set
  (cell 8, not cell 3) whose \<^verbatim>\<open>x0\<close> is the \<^verbatim>\<open>x0\<close> of the source (cell 0), and
  \<^verbatim>\<open>s.x0.setValue(5)\<close> changes the value the source reads from 0 to 5.
\<close>

theorem copy_construction_shares_x0:
  "copy_construct_then_setValue 5 =
     Inr \<lparr>source_set = 3, clone_set = 8, source_x0 = 0, clone_x0 = 0,
          source_value_before = 0, source_value_after = 5\<rparr>"
  by (simp add: copy_construct_then_setValue_def ref_FunctionSetDescription_init_def
        ref_ParameterDescription_init_def ParameterDescription_init_def setValue_def new_def
        ref_ModelDescription_init_def ref_addFunctionSet_def cell_at_def
        ref_ModelDescription_addFunctionSet_def ref_SimpleModelDescription_addFunctionSet_def
        ref_SimpleModelDescription_init_def ref_copy_def ref_functionSet_def ref_x0_def
        ref_value_def ref_SimpleModelDescription_x0_def ref_setValue_def setattr_defs)

end
